theory Spec2Isabelle
  imports Main
begin

section \<open>JSON values, request bodies and HTTP responses\<close>

text \<open>
  The service speaks JSON over HTTP. A request body is a decoded JSON object, a
  dictionary from keys to JSON values; a key that is not in the object maps to \<open>None\<close>,
  a key that carries an explicit \<^verbatim>\<open>null\<close> maps to \<open>Some JNull\<close>.
\<close>

datatype json =
    JNull
  | JBool bool
  | JInt int
  | JStr string
  | JArr "json list"
  | JObj "(string \<times> json) list"

type_synonym body = "string \<rightharpoonup> json"

text \<open>
  What the framework sends back: a JSON response with its status code, the 422 it
  answers when the request does not validate against the declared schema, or the 500 it
  answers when an exception leaves the endpoint unhandled.
\<close>

datatype response =
    JSONResponse nat json
  | RequestValidationError
  | InternalServerError

primrec status_code :: "response \<Rightarrow> nat" where
  "status_code (JSONResponse code content) = code"
| "status_code RequestValidationError = 422"
| "status_code InternalServerError = 500"

text \<open>
  Exceptions an endpoint can end with: the \<^verbatim>\<open>HTTPException\<close> the handlers raise
  themselves, the \<^verbatim>\<open>IntegrityError\<close> of a commit that violates a column constraint,
  the \<^verbatim>\<open>OverflowError\<close> of a query parameter the database cannot bind, and the
  \<^verbatim>\<open>ResponseValidationError\<close> of a return value that does not fit the response
  model.
\<close>

datatype exn =
    HTTPException nat string
  | IntegrityError
  | OverflowError
  | ResponseValidationError

datatype 'a validated = Invalid | Valid 'a

section \<open>Configuration (app/core/config.py)\<close>

text \<open>The setting \<^verbatim>\<open>ENV_\<close> is the field \<open>ENV_setting\<close>.\<close>

record Settings =
  DATABASE_URL :: string
  APP_NAME :: string
  APP_DESC :: string
  APP_VERSION :: string
  ENV_setting :: "string option"
  CORS_ORIGINS :: "string option"

section \<open>The ticket table (app/ticket/models.py)\<close>

text \<open>
  A \<^verbatim>\<open>Ticket\<close> object has an integer primary key and three string attributes, each
  of which Python can set to \<^verbatim>\<open>None\<close>. The columns \<^verbatim>\<open>title\<close> and
  \<^verbatim>\<open>description\<close> are declared \<^verbatim>\<open>nullable=False\<close>; \<^verbatim>\<open>status\<close> is declared
  with \<^verbatim>\<open>default="open"\<close> only, so the column accepts NULL.
\<close>

text \<open>The column \<^verbatim>\<open>id\<close> is the field \<open>ticket_id\<close>.\<close>

record Ticket =
  ticket_id :: int
  title :: "string option"
  description :: "string option"
  status :: "string option"

datatype field_name = F_title | F_description | F_status

definition nullable :: "field_name \<Rightarrow> bool" where
  "nullable f = (f = F_status)"

primrec setattr :: "Ticket \<Rightarrow> field_name \<Rightarrow> string option \<Rightarrow> Ticket" where
  "setattr t F_title v = t\<lparr>title := v\<rparr>"
| "setattr t F_description v = t\<lparr>description := v\<rparr>"
| "setattr t F_status v = t\<lparr>status := v\<rparr>"

text \<open>
  The session is modelled by the committed rows of the table, in rowid order. The
  default \<^verbatim>\<open>DATABASE_URL\<close> is an SQLite file, where an integer primary key takes 1 in
  an empty table and the largest key plus one otherwise.
\<close>

type_synonym Session = "Ticket list"

definition autoincrement :: "Session \<Rightarrow> int" where
  "autoincrement db = (if db = [] then 1 else Max (set (map ticket_id db)) + 1)"

section \<open>The schemas (app/ticket/schemas.py)\<close>

text \<open>
  \<^verbatim>\<open>TicketCreate\<close> has two required string fields of minimum length 1; keys of the
  body that the schema does not declare are ignored.
\<close>

record TicketCreate =
  new_title :: string
  new_description :: string

definition required_str_min1 :: "json option \<Rightarrow> string validated" where
  "required_str_min1 v =
     (case v of
        Some (JStr s) \<Rightarrow> if 1 \<le> length s then Valid s else Invalid
      | _ \<Rightarrow> Invalid)"

definition validate_TicketCreate :: "body \<Rightarrow> TicketCreate validated" where
  "validate_TicketCreate b =
     (case required_str_min1 (b ''title'') of
        Invalid \<Rightarrow> Invalid
      | Valid t \<Rightarrow>
          (case required_str_min1 (b ''description'') of
             Invalid \<Rightarrow> Invalid
           | Valid d \<Rightarrow> Valid \<lparr>new_title = t, new_description = d\<rparr>))"

text \<open>
  \<^verbatim>\<open>TicketUpdate\<close> has three fields of type \<^verbatim>\<open>str | None\<close> with default
  \<^verbatim>\<open>None\<close>. The model remembers which fields the body set: \<open>None\<close> is a field the
  body left out, \<open>Some None\<close> a field the body set to \<^verbatim>\<open>null\<close>, and
  \<open>Some (Some s)\<close> a field the body set to the string \<open>s\<close>.
\<close>

record TicketUpdate =
  set_title :: "string option option"
  set_description :: "string option option"
  set_status :: "string option option"

definition optional_str :: "json option \<Rightarrow> string option option validated" where
  "optional_str v =
     (case v of
        None \<Rightarrow> Valid None
      | Some JNull \<Rightarrow> Valid (Some None)
      | Some (JStr s) \<Rightarrow> Valid (Some (Some s))
      | Some _ \<Rightarrow> Invalid)"

definition validate_TicketUpdate :: "body \<Rightarrow> TicketUpdate validated" where
  "validate_TicketUpdate b =
     (case optional_str (b ''title'') of
        Invalid \<Rightarrow> Invalid
      | Valid t \<Rightarrow>
          (case optional_str (b ''description'') of
             Invalid \<Rightarrow> Invalid
           | Valid d \<Rightarrow>
               (case optional_str (b ''status'') of
                  Invalid \<Rightarrow> Invalid
                | Valid s \<Rightarrow>
                    Valid \<lparr>set_title = t, set_description = d, set_status = s\<rparr>)))"

text \<open>\<^verbatim>\<open>payload.model_dump(exclude_unset=True).items()\<close>: the fields the body set.\<close>

definition dump_field :: "field_name \<Rightarrow> string option option \<Rightarrow> (field_name \<times> string option) list" where
  "dump_field f v = (case v of None \<Rightarrow> [] | Some x \<Rightarrow> [(f, x)])"

definition model_dump_exclude_unset :: "TicketUpdate \<Rightarrow> (field_name \<times> string option) list" where
  "model_dump_exclude_unset payload =
     dump_field F_title (set_title payload) @
     dump_field F_description (set_description payload) @
     dump_field F_status (set_status payload)"

text \<open>
  \<^verbatim>\<open>TicketOut\<close> extends \<^verbatim>\<open>TicketBase\<close>, so it inherits the two fields of minimum
  length 1, and adds a required integer \<^verbatim>\<open>id\<close> and a required string
  \<^verbatim>\<open>status\<close>. It is built from the attributes of a \<^verbatim>\<open>Ticket\<close>.
\<close>

record TicketOut =
  out_title :: string
  out_description :: string
  out_id :: int
  out_status :: string

definition TicketOut_from_attributes :: "Ticket \<Rightarrow> TicketOut validated" where
  "TicketOut_from_attributes t =
     (case required_str_min1 (map_option JStr (title t)) of
        Invalid \<Rightarrow> Invalid
      | Valid ti \<Rightarrow>
          (case required_str_min1 (map_option JStr (description t)) of
             Invalid \<Rightarrow> Invalid
           | Valid d \<Rightarrow>
               (case status t of
                  None \<Rightarrow> Invalid
                | Some s \<Rightarrow>
                    Valid \<lparr>out_title = ti, out_description = d,
                           out_id = ticket_id t, out_status = s\<rparr>)))"

definition TicketOut_json :: "TicketOut \<Rightarrow> json" where
  "TicketOut_json out =
     JObj [(''title'', JStr (out_title out)),
           (''description'', JStr (out_description out)),
           (''id'', JInt (out_id out)),
           (''status'', JStr (out_status out))]"

section \<open>The service (app/ticket/services.py)\<close>

definition get_all_tickets :: "Session \<Rightarrow> Ticket list" where
  "get_all_tickets db = db"

text \<open>
  The id of the query is a Python integer of any size, while SQLite keeps keys as signed
  64-bit integers. A key outside that range is the key of no row of a table SQLite
  holds, and binding it to the query raises \<^verbatim>\<open>OverflowError\<close> where a key
  within the range would give \<^verbatim>\<open>None\<close>.
\<close>

definition sqlite_integer :: "int \<Rightarrow> bool" where
  "sqlite_integer k = (- (2 ^ 63) \<le> k \<and> k < 2 ^ 63)"

definition get_ticket :: "Session \<Rightarrow> int \<Rightarrow> exn + Ticket option" where
  "get_ticket db tid =
     (case find (\<lambda>t. ticket_id t = tid) db of
        Some t \<Rightarrow> Inr (Some t)
      | None \<Rightarrow> if sqlite_integer tid then Inr None else Inl OverflowError)"

text \<open>
  \<^verbatim>\<open>Ticket(**payload.model_dump())\<close> sets the title and the description; the insert
  fills in the key and the column default of \<^verbatim>\<open>status\<close>.
\<close>

definition create_ticket :: "Session \<Rightarrow> TicketCreate \<Rightarrow> Session \<times> Ticket" where
  "create_ticket db payload =
     (let db_ticket = \<lparr>ticket_id = autoincrement db,
                       title = Some (new_title payload),
                       description = Some (new_description payload),
                       status = Some ''open''\<rparr>
      in (db @ [db_ticket], db_ticket))"

text \<open>
  The commit of an update writes the assigned attributes to the row with that key. It
  raises \<^verbatim>\<open>IntegrityError\<close> when an assignment puts NULL in a column declared
  \<^verbatim>\<open>nullable=False\<close>; the session is then closed without a commit and the table is
  as it was.
\<close>

definition not_null_ok :: "(field_name \<times> string option) list \<Rightarrow> bool" where
  "not_null_ok items = list_all (\<lambda>(f, v). nullable f \<or> v \<noteq> None) items"

definition update_ticket ::
  "Session \<Rightarrow> int \<Rightarrow> TicketUpdate \<Rightarrow> exn + (Session \<times> Ticket option)" where
  "update_ticket db tid payload =
     (case get_ticket db tid of
        Inl e \<Rightarrow> Inl e
      | Inr None \<Rightarrow> Inr (db, None)
      | Inr (Some db_ticket) \<Rightarrow>
          (let items = model_dump_exclude_unset payload;
               db_ticket' = fold (\<lambda>(f, v) t. setattr t f v) items db_ticket
           in if not_null_ok items
              then Inr (map (\<lambda>r. if ticket_id r = tid then db_ticket' else r) db,
                        Some db_ticket')
              else Inl IntegrityError))"

definition delete_ticket :: "Session \<Rightarrow> int \<Rightarrow> exn + (Session \<times> Ticket option)" where
  "delete_ticket db tid =
     (case get_ticket db tid of
        Inl e \<Rightarrow> Inl e
      | Inr None \<Rightarrow> Inr (db, None)
      | Inr (Some db_ticket) \<Rightarrow>
          Inr (filter (\<lambda>r. ticket_id r \<noteq> tid) db, Some db_ticket))"

section \<open>The route handlers (app/ticket/routes.py)\<close>

text \<open>
  Each handler is the body of the Python function: it takes the validated arguments and
  the session, and returns the new table with either the value it returns or the
  exception it ends with.
\<close>

definition papo :: "Settings \<Rightarrow> (string \<times> json) list" where
  "papo settings =
     [(''message'', JStr ''Hello from /test route!''),
      (''secret_key'', (case ENV_setting settings of None \<Rightarrow> JNull | Some s \<Rightarrow> JStr s))]"

definition create :: "TicketCreate \<Rightarrow> Session \<Rightarrow> Session \<times> Ticket" where
  "create ticket db = create_ticket db ticket"

text \<open>
  The handler \<^verbatim>\<open>list_all\<close> is named \<open>list_all_tickets\<close> here, since
  \<open>list_all\<close> is a constant of the list library. Its guard \<^verbatim>\<open>if status:\<close> holds
  for a string that is present and not empty.
\<close>

definition truthy :: "string option \<Rightarrow> bool" where
  "truthy s = (case s of None \<Rightarrow> False | Some v \<Rightarrow> v \<noteq> [])"

definition list_all_tickets :: "string option \<Rightarrow> Session \<Rightarrow> Ticket list" where
  "list_all_tickets status_param db =
     (let items = get_all_tickets db
      in if truthy status_param
         then filter (\<lambda>t. status t = status_param) items
         else items)"

definition get :: "int \<Rightarrow> Session \<Rightarrow> exn + Ticket" where
  "get tid db =
     (case get_ticket db tid of
        Inl e \<Rightarrow> Inl e
      | Inr None \<Rightarrow> Inl (HTTPException 404 ''Ticket not found'')
      | Inr (Some ticket) \<Rightarrow> Inr ticket)"

definition update :: "int \<Rightarrow> TicketUpdate \<Rightarrow> Session \<Rightarrow> Session \<times> (exn + Ticket)" where
  "update tid ticket db =
     (case update_ticket db tid ticket of
        Inl e \<Rightarrow> (db, Inl e)
      | Inr (db', None) \<Rightarrow> (db', Inl (HTTPException 404 ''Ticket not found''))
      | Inr (db', Some updated) \<Rightarrow> (db', Inr updated))"

definition delete :: "int \<Rightarrow> Session \<Rightarrow> Session \<times> (exn + Ticket)" where
  "delete tid db =
     (case delete_ticket db tid of
        Inl e \<Rightarrow> (db, Inl e)
      | Inr (db', None) \<Rightarrow> (db', Inl (HTTPException 404 ''Ticket not found''))
      | Inr (db', Some deleted) \<Rightarrow> (db', Inr deleted))"

section \<open>The endpoints: validation, handler, response model\<close>

text \<open>
  The decorators of the router wire each handler between the validation of the request
  and the serialisation of the result. An \<^verbatim>\<open>HTTPException\<close> becomes a JSON response
  with its status code and a \<^verbatim>\<open>detail\<close> key; any other exception becomes a 500. A
  returned ticket is validated against \<^verbatim>\<open>response_model=TicketOut\<close>; a ticket that
  does not fit raises \<^verbatim>\<open>ResponseValidationError\<close>, after the handler has committed.
\<close>

primrec exception_response :: "exn \<Rightarrow> response" where
  "exception_response (HTTPException code detail) =
     JSONResponse code (JObj [(''detail'', JStr detail)])"
| "exception_response IntegrityError = InternalServerError"
| "exception_response OverflowError = InternalServerError"
| "exception_response ResponseValidationError = InternalServerError"

definition serialize_response :: "nat \<Rightarrow> Ticket \<Rightarrow> response" where
  "serialize_response code t =
     (case TicketOut_from_attributes t of
        Invalid \<Rightarrow> exception_response ResponseValidationError
      | Valid out \<Rightarrow> JSONResponse code (TicketOut_json out))"

primrec validate_list :: "Ticket list \<Rightarrow> TicketOut list validated" where
  "validate_list [] = Valid []"
| "validate_list (t # ts) =
     (case TicketOut_from_attributes t of
        Invalid \<Rightarrow> Invalid
      | Valid out \<Rightarrow>
          (case validate_list ts of
             Invalid \<Rightarrow> Invalid
           | Valid outs \<Rightarrow> Valid (out # outs)))"

definition serialize_list_response :: "Ticket list \<Rightarrow> response" where
  "serialize_list_response ts =
     (case validate_list ts of
        Invalid \<Rightarrow> exception_response ResponseValidationError
      | Valid outs \<Rightarrow> JSONResponse 200 (JArr (map TicketOut_json outs)))"

definition finish :: "nat \<Rightarrow> exn + Ticket \<Rightarrow> response" where
  "finish code r = (case r of Inl e \<Rightarrow> exception_response e | Inr t \<Rightarrow> serialize_response code t)"

definition GET_papo :: "Settings \<Rightarrow> response" where
  "GET_papo settings = JSONResponse 200 (JObj (papo settings))"

definition POST_tickets :: "body \<Rightarrow> Session \<Rightarrow> Session \<times> response" where
  "POST_tickets b db =
     (case validate_TicketCreate b of
        Invalid \<Rightarrow> (db, RequestValidationError)
      | Valid ticket \<Rightarrow>
          (case create ticket db of (db', t) \<Rightarrow> (db', serialize_response 201 t)))"

definition GET_tickets :: "string option \<Rightarrow> Session \<Rightarrow> Session \<times> response" where
  "GET_tickets status_param db = (db, serialize_list_response (list_all_tickets status_param db))"

definition GET_ticket :: "int \<Rightarrow> Session \<Rightarrow> Session \<times> response" where
  "GET_ticket tid db = (db, finish 200 (get tid db))"

definition PUT_ticket :: "int \<Rightarrow> body \<Rightarrow> Session \<Rightarrow> Session \<times> response" where
  "PUT_ticket tid b db =
     (case validate_TicketUpdate b of
        Invalid \<Rightarrow> (db, RequestValidationError)
      | Valid ticket \<Rightarrow>
          (case update tid ticket db of (db', r) \<Rightarrow> (db', finish 200 r)))"

definition DELETE_ticket :: "int \<Rightarrow> Session \<Rightarrow> Session \<times> response" where
  "DELETE_ticket tid db = (case delete tid db of (db', r) \<Rightarrow> (db', finish 200 r))"

subsection \<open>Route resolution\<close>

text \<open>
  The router tries its routes in the order the decorators registered them and takes the
  first whose method and path pattern match. Paths are relative to the prefix
  \<^verbatim>\<open>/tickets\<close>; the parameter of \<^verbatim>\<open>/{ticket_id}\<close> matches one non-empty segment.
\<close>

datatype http_method = GET | POST | PUT | DELETE

datatype pattern = Literal string | Param

datatype handler = H_papo | H_create | H_list_all | H_get | H_update | H_delete

primrec matches :: "pattern \<Rightarrow> string \<Rightarrow> bool" where
  "matches (Literal s) p = (p = s)"
| "matches Param p =
     (case p of
        [] \<Rightarrow> False
      | c # seg \<Rightarrow> c = CHR ''/'' \<and> seg \<noteq> [] \<and> CHR ''/'' \<notin> set seg)"

definition router :: "(http_method \<times> pattern \<times> handler) list" where
  "router =
     [(GET, Literal ''/papo'', H_papo),
      (POST, Literal ''/'', H_create),
      (GET, Literal ''/'', H_list_all),
      (GET, Param, H_get),
      (PUT, Param, H_update),
      (DELETE, Param, H_delete)]"

definition resolve :: "http_method \<Rightarrow> string \<Rightarrow> handler option" where
  "resolve m p =
     map_option (\<lambda>(m', pat, h). h) (find (\<lambda>(m', pat, h). m' = m \<and> matches pat p) router)"

section \<open>Facts about the table\<close>

lemma autoincrement_above: "t \<in> set db \<Longrightarrow> ticket_id t < autoincrement db"
proof -
  assume h: "t \<in> set db"
  then have ne: "db \<noteq> []" by auto
  have "ticket_id t \<in> set (map ticket_id db)" using h by simp
  then have "ticket_id t \<le> Max (set (map ticket_id db))" by (intro Max_ge) auto
  then show ?thesis using ne by (simp add: autoincrement_def)
qed

lemma find_none_iff_ids: "find (\<lambda>t. ticket_id t = tid) db = None \<longleftrightarrow> tid \<notin> set (map ticket_id db)"
  by (induction db) auto

lemma get_ticket_Some_iff:
  "get_ticket db tid = Inr (Some T) \<longleftrightarrow> find (\<lambda>t. ticket_id t = tid) db = Some T"
  by (simp add: get_ticket_def split: option.splits)

lemma get_ticket_absent:
  "tid \<notin> set (map ticket_id db) \<Longrightarrow>
   get_ticket db tid = (if sqlite_integer tid then Inr None else Inl OverflowError)"
proof -
  assume "tid \<notin> set (map ticket_id db)"
  then have "find (\<lambda>t. ticket_id t = tid) db = None"
    by (simp add: find_none_iff_ids)
  then show ?thesis by (simp add: get_ticket_def)
qed

lemma autoincrement_fresh: "find (\<lambda>t. ticket_id t = autoincrement db) db = None"
  unfolding find_none_iff_ids using autoincrement_above by fastforce

lemma find_append_fresh:
  "find P xs = None \<Longrightarrow> P x \<Longrightarrow> find P (xs @ [x]) = Some x"
  by (induction xs) (auto split: if_splits)

lemma find_Some_holds: "find P xs = Some x \<Longrightarrow> P x"
  by (induction xs) (auto split: if_splits)

lemma find_map_replace:
  "find (\<lambda>t. ticket_id t = tid) db = Some T \<Longrightarrow> ticket_id T' = tid \<Longrightarrow>
   find (\<lambda>t. ticket_id t = tid) (map (\<lambda>r. if ticket_id r = tid then T' else r) db) = Some T'"
  by (induction db) (auto split: if_splits)

lemma find_filter_removed:
  "find (\<lambda>t. ticket_id t = tid) (filter (\<lambda>r. ticket_id r \<noteq> tid) db) = None"
  by (induction db) auto

lemma deleted_id_absent:
  "delete_ticket db tid = Inr (db', r) \<Longrightarrow> tid \<notin> set (map ticket_id db')"
  using find_filter_removed[of tid db]
  by (auto simp: delete_ticket_def get_ticket_def find_none_iff_ids
      split: option.splits if_splits)

lemma unassigned_id_absent: "autoincrement db \<le> tid \<Longrightarrow> tid \<notin> set (map ticket_id db)"
  using autoincrement_above by fastforce

section \<open>Partial update\<close>

text \<open>
  Claim C1. For every ticket \<open>T\<close> in the store and every update payload \<open>U\<close> that
  sets only \<^verbatim>\<open>status\<close>, \<open>update_ticket\<close> succeeds, and \<open>get_ticket\<close> on the
  new table returns the ticket it returned: \<open>T\<close> with the status of \<open>U\<close>, and with
  the id, the title and the description of \<open>T\<close>.
\<close>

theorem update_status_only_preserves_title_description:
  assumes "get_ticket db tid = Inr (Some T)"
    and "set_title U = None" and "set_description U = None" and "set_status U = Some v"
  shows "\<exists>db' T'. update_ticket db tid U = Inr (db', Some T') \<and>
           get_ticket db' tid = Inr (Some T') \<and>
           T' = T\<lparr>status := v\<rparr> \<and>
           ticket_id T' = ticket_id T \<and> title T' = title T \<and>
           description T' = description T \<and> status T' = v"
proof -
  have items: "model_dump_exclude_unset U = [(F_status, v)]"
    using assms(2-4) by (simp add: model_dump_exclude_unset_def dump_field_def)
  have ok: "not_null_ok [(F_status, v)]"
    by (simp add: not_null_ok_def nullable_def)
  have found: "find (\<lambda>t. ticket_id t = tid) db = Some T"
    using assms(1) by (simp add: get_ticket_Some_iff)
  have tid: "ticket_id T = tid"
    using found find_Some_holds[of "\<lambda>t. ticket_id t = tid" db T] by simp
  let ?T = "T\<lparr>status := v\<rparr>"
  let ?db = "map (\<lambda>r. if ticket_id r = tid then ?T else r) db"
  have upd: "update_ticket db tid U = Inr (?db, Some ?T)"
    using assms(1) items ok by (simp add: update_ticket_def Let_def)
  have "get_ticket ?db tid = Inr (Some ?T)"
    using found tid find_map_replace[of tid db T ?T] by (simp add: get_ticket_Some_iff)
  with upd show ?thesis by simp
qed


theorem update_status_only_witness:
  "get_ticket [\<lparr>ticket_id = 1, title = Some ''T'', description = Some ''D'', status = Some ''open''\<rparr>] 1
     = Inr (Some \<lparr>ticket_id = 1, title = Some ''T'', description = Some ''D'', status = Some ''open''\<rparr>) \<and>
   (\<exists>db' T'.
      update_ticket [\<lparr>ticket_id = 1, title = Some ''T'', description = Some ''D'', status = Some ''open''\<rparr>] 1
          \<lparr>set_title = None, set_description = None, set_status = Some (Some ''closed'')\<rparr>
        = Inr (db', Some T') \<and>
      get_ticket db' 1 = Inr (Some T') \<and>
      title T' = Some ''T'' \<and> description T' = Some ''D'' \<and> status T' = Some ''closed'')"
  using update_status_only_preserves_title_description
    [of "[\<lparr>ticket_id = 1, title = Some ''T'', description = Some ''D'', status = Some ''open''\<rparr>]" 1
        "\<lparr>ticket_id = 1, title = Some ''T'', description = Some ''D'', status = Some ''open''\<rparr>"
        "\<lparr>set_title = None, set_description = None, set_status = Some (Some ''closed'')\<rparr>"
        "Some ''closed''"]
  by (fastforce simp: get_ticket_def)

section \<open>Creation\<close>

lemma required_str_min1_Valid:
  "required_str_min1 v = Valid s \<longleftrightarrow> v = Some (JStr s) \<and> s \<noteq> []"
  by (auto simp: required_str_min1_def Suc_le_eq split: option.splits json.splits if_splits)

lemma required_str_min1_JStr:
  "required_str_min1 (Some (JStr s)) = (if s = [] then Invalid else Valid s)"
  by (simp add: required_str_min1_def Suc_le_eq)

lemma validate_TicketCreate_Valid:
  "validate_TicketCreate b = Valid I \<longleftrightarrow>
     b ''title'' = Some (JStr (new_title I)) \<and> new_title I \<noteq> [] \<and>
     b ''description'' = Some (JStr (new_description I)) \<and> new_description I \<noteq> []"
  by (cases I) (auto simp: validate_TicketCreate_def required_str_min1_Valid required_str_min1_JStr split: validated.splits if_splits)

lemma serialize_created:
  "t \<noteq> [] \<Longrightarrow> d \<noteq> [] \<Longrightarrow>
   serialize_response code \<lparr>ticket_id = i, title = Some t, description = Some d, status = Some s\<rparr> =
     JSONResponse code (JObj [(''title'', JStr t), (''description'', JStr d),
                              (''id'', JInt i), (''status'', JStr s)])"
  by (simp add: serialize_response_def TicketOut_from_attributes_def required_str_min1_def
      TicketOut_json_def Suc_le_eq)

text \<open>
  Claim C2. For every request body whose title and description are non-empty strings,
  whatever else the body carries (a \<^verbatim>\<open>status\<close>, an \<^verbatim>\<open>id\<close>), the create
  endpoint answers 201 with a ticket whose status is \<^verbatim>\<open>"open"\<close> and whose id is
  the one the table assigns.
\<close>

theorem create_status_open:
  assumes "b ''title'' = Some (JStr t)" and "t \<noteq> []"
    and "b ''description'' = Some (JStr d)" and "d \<noteq> []"
  shows "POST_tickets b db =
           (db @ [\<lparr>ticket_id = autoincrement db, title = Some t, description = Some d,
                   status = Some ''open''\<rparr>],
            JSONResponse 201
              (JObj [(''title'', JStr t), (''description'', JStr d),
                     (''id'', JInt (autoincrement db)), (''status'', JStr ''open'')]))"
proof -
  have "validate_TicketCreate b = Valid \<lparr>new_title = t, new_description = d\<rparr>"
    using assms by (simp add: validate_TicketCreate_Valid)
  then show ?thesis
    using assms(2,4) by (simp add: POST_tickets_def create_def create_ticket_def Let_def serialize_created)
qed

theorem create_status_open_witness:
  "POST_tickets [''title'' \<mapsto> JStr ''T1'', ''description'' \<mapsto> JStr ''D1'',
                 ''status'' \<mapsto> JStr ''closed'', ''id'' \<mapsto> JInt 99] [] =
     ([\<lparr>ticket_id = 1, title = Some ''T1'', description = Some ''D1'', status = Some ''open''\<rparr>],
      JSONResponse 201
        (JObj [(''title'', JStr ''T1''), (''description'', JStr ''D1''),
               (''id'', JInt 1), (''status'', JStr ''open'')]))"
  using create_status_open
    [of "[''title'' \<mapsto> JStr ''T1'', ''description'' \<mapsto> JStr ''D1'',
          ''status'' \<mapsto> JStr ''closed'', ''id'' \<mapsto> JInt 99]" "''T1''" "''D1''" "[]"]
  by (simp add: autoincrement_def)

section \<open>Evaluating the endpoints on concrete requests\<close>

lemmas schema_defs =
  validate_TicketCreate_def validate_TicketUpdate_def required_str_min1_def optional_str_def
  model_dump_exclude_unset_def dump_field_def TicketOut_from_attributes_def TicketOut_json_def

lemmas service_defs =
  get_all_tickets_def get_ticket_def create_ticket_def update_ticket_def delete_ticket_def
  autoincrement_def not_null_ok_def nullable_def sqlite_integer_def Let_def

lemmas route_defs =
  create_def list_all_tickets_def truthy_def get_def update_def delete_def
  serialize_response_def serialize_list_response_def finish_def
  POST_tickets_def GET_tickets_def GET_ticket_def PUT_ticket_def DELETE_ticket_def

section \<open>Not found\<close>

text \<open>
  For every id within the signed 64-bit range that no row of the table has (an id never
  assigned, or one whose ticket has been deleted), get, update and delete answer 404 with
  the detail \<^verbatim>\<open>"Ticket not found"\<close> and leave the table as it was.
\<close>

lemma not_found_in_range:
  assumes "tid \<notin> set (map ticket_id db)" and "sqlite_integer tid"
  shows "GET_ticket tid db = (db, JSONResponse 404 (JObj [(''detail'', JStr ''Ticket not found'')])) \<and>
         update tid U db = (db, Inl (HTTPException 404 ''Ticket not found'')) \<and>
         (validate_TicketUpdate b = Valid U \<longrightarrow>
            PUT_ticket tid b db = (db, JSONResponse 404 (JObj [(''detail'', JStr ''Ticket not found'')]))) \<and>
         DELETE_ticket tid db = (db, JSONResponse 404 (JObj [(''detail'', JStr ''Ticket not found'')]))"
proof -
  have absent: "get_ticket db tid = Inr None"
    using assms by (simp add: get_ticket_absent)
  then show ?thesis
    by (simp add: GET_ticket_def get_def finish_def update_def update_ticket_def PUT_ticket_def
        DELETE_ticket_def delete_def delete_ticket_def)
qed

lemma not_found_out_of_range:
  assumes "tid \<notin> set (map ticket_id db)" and "\<not> sqlite_integer tid"
  shows "GET_ticket tid db = (db, InternalServerError) \<and>
         update tid U db = (db, Inl OverflowError) \<and>
         (validate_TicketUpdate b = Valid U \<longrightarrow> PUT_ticket tid b db = (db, InternalServerError)) \<and>
         DELETE_ticket tid db = (db, InternalServerError)"
proof -
  have absent: "get_ticket db tid = Inl OverflowError"
    using assms by (simp add: get_ticket_absent)
  then show ?thesis
    by (simp add: GET_ticket_def get_def finish_def update_def update_ticket_def PUT_ticket_def
        DELETE_ticket_def delete_def delete_ticket_def)
qed

text \<open>
  Claim C3 says get, update and delete answer 404 for every id that was never assigned.
  The handlers take any integer as \<^verbatim>\<open>ticket_id\<close>. For the id \<open>2^63\<close>, which no
  ticket ever had, the query of \<^verbatim>\<open>get_ticket\<close> raises \<^verbatim>\<open>OverflowError\<close>, no
  handler catches it, and all three endpoints answer 500; for the id 9999999 of the
  repository's test they answer 404.
\<close>

theorem not_found_out_of_range_answers_500:
  "GET_ticket 9223372036854775808
     [\<lparr>ticket_id = 1, title = Some ''T'', description = Some ''D'', status = Some ''open''\<rparr>] =
     ([\<lparr>ticket_id = 1, title = Some ''T'', description = Some ''D'', status = Some ''open''\<rparr>],
      InternalServerError) \<and>
   PUT_ticket 9223372036854775808 [''status'' \<mapsto> JStr ''closed'']
     [\<lparr>ticket_id = 1, title = Some ''T'', description = Some ''D'', status = Some ''open''\<rparr>] =
     ([\<lparr>ticket_id = 1, title = Some ''T'', description = Some ''D'', status = Some ''open''\<rparr>],
      InternalServerError) \<and>
   DELETE_ticket 9223372036854775808
     [\<lparr>ticket_id = 1, title = Some ''T'', description = Some ''D'', status = Some ''open''\<rparr>] =
     ([\<lparr>ticket_id = 1, title = Some ''T'', description = Some ''D'', status = Some ''open''\<rparr>],
      InternalServerError) \<and>
   GET_ticket 9999999
     [\<lparr>ticket_id = 1, title = Some ''T'', description = Some ''D'', status = Some ''open''\<rparr>] =
     ([\<lparr>ticket_id = 1, title = Some ''T'', description = Some ''D'', status = Some ''open''\<rparr>],
      JSONResponse 404 (JObj [(''detail'', JStr ''Ticket not found'')])) \<and>
   status_code InternalServerError = 500"
  by (simp add: schema_defs service_defs route_defs)

section \<open>Listing and the status filter\<close>

text \<open>
  Claim C4, as stated, fails for the empty value. A request \<^verbatim>\<open>GET /tickets/?status=\<close>
  carries the parameter with the value \<^verbatim>\<open>""\<close>; the guard \<^verbatim>\<open>if status:\<close> is
  false for it, and the handler returns every ticket, here one whose status is
  \<^verbatim>\<open>"open"\<close>.
\<close>

theorem list_filter_empty_value_counterexample:
  "list_all_tickets (Some '''')
     [\<lparr>ticket_id = 1, title = Some ''A'', description = Some ''A'', status = Some ''open''\<rparr>] =
     [\<lparr>ticket_id = 1, title = Some ''A'', description = Some ''A'', status = Some ''open''\<rparr>] \<and>
   status \<lparr>ticket_id = 1, title = Some ''A'', description = Some ''A'', status = Some ''open''\<rparr>
     \<noteq> Some '''' \<and>
   GET_tickets (Some '''')
     [\<lparr>ticket_id = 1, title = Some ''A'', description = Some ''A'', status = Some ''open''\<rparr>] =
     ([\<lparr>ticket_id = 1, title = Some ''A'', description = Some ''A'', status = Some ''open''\<rparr>],
      JSONResponse 200
        (JArr [JObj [(''title'', JStr ''A''), (''description'', JStr ''A''),
                     (''id'', JInt 1), (''status'', JStr ''open'')]]))"
  by (simp add: schema_defs service_defs route_defs)

text \<open>
  Claim C4, amended. For every table and every non-empty value \<open>v\<close> of the status
  parameter the list handler returns exactly the tickets whose stored status equals
  \<open>v\<close>, in table order; when the parameter is absent or is the empty string it returns
  all tickets.
\<close>

theorem list_filter_nonempty_value:
  "(v \<noteq> [] \<longrightarrow>
      list_all_tickets (Some v) db = filter (\<lambda>t. status t = Some v) db \<and>
      (\<forall>t. t \<in> set (list_all_tickets (Some v) db) \<longleftrightarrow> t \<in> set db \<and> status t = Some v)) \<and>
   list_all_tickets (Some []) db = db \<and>
   list_all_tickets None db = db"
  by (simp add: list_all_tickets_def truthy_def get_all_tickets_def)

theorem list_filter_nonempty_value_witness:
  "''open'' \<noteq> [] \<and>
   list_all_tickets (Some ''open'')
     [\<lparr>ticket_id = 1, title = Some ''A'', description = Some ''A'', status = Some ''open''\<rparr>,
      \<lparr>ticket_id = 2, title = Some ''B'', description = Some ''B'', status = Some ''closed''\<rparr>] =
     [\<lparr>ticket_id = 1, title = Some ''A'', description = Some ''A'', status = Some ''open''\<rparr>]"
  using list_filter_nonempty_value
    [of "''open''"
        "[\<lparr>ticket_id = 1, title = Some ''A'', description = Some ''A'', status = Some ''open''\<rparr>,
          \<lparr>ticket_id = 2, title = Some ''B'', description = Some ''B'', status = Some ''closed''\<rparr>]"]
  by simp

section \<open>Create, then get\<close>

text \<open>
  Claim C5. For every body that validates as a create input \<open>I\<close>, \<open>get_ticket\<close>
  with the id of the ticket \<open>create_ticket\<close> returned yields that same ticket, and the
  GET endpoint answers 200 with the JSON object the POST endpoint answered with 201.
\<close>

theorem create_get_roundtrip:
  assumes "validate_TicketCreate b = Valid I"
  shows "\<exists>db' t j. create_ticket db I = (db', t) \<and>
           get_ticket db' (ticket_id t) = Inr (Some t) \<and>
           POST_tickets b db = (db', JSONResponse 201 j) \<and>
           GET_ticket (ticket_id t) db' = (db', JSONResponse 200 j)"
proof -
  let ?t = "\<lparr>ticket_id = autoincrement db, title = Some (new_title I),
             description = Some (new_description I), status = Some ''open''\<rparr>"
  let ?j = "JObj [(''title'', JStr (new_title I)), (''description'', JStr (new_description I)),
                  (''id'', JInt (autoincrement db)), (''status'', JStr ''open'')]"
  have ne: "new_title I \<noteq> []" "new_description I \<noteq> []"
    using assms by (simp_all add: validate_TicketCreate_Valid)
  have c: "create_ticket db I = (db @ [?t], ?t)"
    by (simp add: create_ticket_def Let_def)
  have g: "get_ticket (db @ [?t]) (ticket_id ?t) = Inr (Some ?t)"
    using autoincrement_fresh[of db]
      find_append_fresh[of "\<lambda>t. ticket_id t = autoincrement db" db ?t]
    by (simp add: get_ticket_Some_iff)
  have p: "POST_tickets b db = (db @ [?t], JSONResponse 201 ?j)"
    using assms c ne by (simp add: POST_tickets_def create_def serialize_created)
  have "GET_ticket (ticket_id ?t) (db @ [?t]) = (db @ [?t], JSONResponse 200 ?j)"
    using g ne by (simp add: GET_ticket_def get_def finish_def serialize_created)
  with c g p show ?thesis by blast
qed

theorem create_get_roundtrip_witness:
  "validate_TicketCreate [''title'' \<mapsto> JStr ''T1'', ''description'' \<mapsto> JStr ''D1''] =
     Valid \<lparr>new_title = ''T1'', new_description = ''D1''\<rparr> \<and>
   (\<exists>db' t j. create_ticket [] \<lparr>new_title = ''T1'', new_description = ''D1''\<rparr> = (db', t) \<and>
      get_ticket db' (ticket_id t) = Inr (Some t) \<and>
      POST_tickets [''title'' \<mapsto> JStr ''T1'', ''description'' \<mapsto> JStr ''D1''] [] =
        (db', JSONResponse 201 j) \<and>
      GET_ticket (ticket_id t) db' = (db', JSONResponse 200 j))"
  using create_get_roundtrip
    [of "[''title'' \<mapsto> JStr ''T1'', ''description'' \<mapsto> JStr ''D1'']"
        "\<lparr>new_title = ''T1'', new_description = ''D1''\<rparr>" "[]"]
  by (simp add: validate_TicketCreate_def required_str_min1_def)

section \<open>The validation boundary of create\<close>

text \<open>
  Claim C6. When the title or the description of the body is missing or is the empty
  string, the create endpoint answers 422 and the table is unchanged, so a list after
  the request gives what a list before it gave.
\<close>

theorem create_validation_boundary:
  assumes "b ''title'' = None \<or> b ''title'' = Some (JStr '''') \<or>
           b ''description'' = None \<or> b ''description'' = Some (JStr '''')"
  shows "POST_tickets b db = (db, RequestValidationError) \<and>
         status_code (snd (POST_tickets b db)) = 422 \<and>
         get_all_tickets (fst (POST_tickets b db)) = get_all_tickets db \<and>
         GET_tickets s (fst (POST_tickets b db)) = GET_tickets s db"
proof -
  have "validate_TicketCreate b = Invalid"
    using assms
    by (auto simp: validate_TicketCreate_def required_str_min1_def split: validated.splits)
  then show ?thesis by (simp add: POST_tickets_def)
qed

theorem create_validation_boundary_witness:
  "[''title'' \<mapsto> JStr '''', ''description'' \<mapsto> JStr ''D''] ''title'' = Some (JStr '''') \<and>
   POST_tickets [''title'' \<mapsto> JStr '''', ''description'' \<mapsto> JStr ''D'']
     [\<lparr>ticket_id = 1, title = Some ''A'', description = Some ''A'', status = Some ''open''\<rparr>] =
     ([\<lparr>ticket_id = 1, title = Some ''A'', description = Some ''A'', status = Some ''open''\<rparr>],
      RequestValidationError)"
  using create_validation_boundary
    [of "[''title'' \<mapsto> JStr '''', ''description'' \<mapsto> JStr ''D'']"
        "[\<lparr>ticket_id = 1, title = Some ''A'', description = Some ''A'', status = Some ''open''\<rparr>]"]
  by simp

section \<open>Updates with empty strings and nulls\<close>

text \<open>What the update endpoint does with an empty title, for any ticket of any table.\<close>

lemma put_empty_title_any_ticket:
  assumes "get_ticket db tid = Inr (Some T)"
  shows "PUT_ticket tid [''title'' \<mapsto> JStr ''''] db =
           (map (\<lambda>r. if ticket_id r = tid then T\<lparr>title := Some ''''\<rparr> else r) db,
            InternalServerError)"
  using assms by (simp add: schema_defs route_defs update_ticket_def not_null_ok_def Let_def)

text \<open>
  Claim C7 says an update with an empty string succeeds with 200. On a table holding
  ticket 1, \<^verbatim>\<open>PUT /tickets/1 {"title": ""}\<close> stores the empty title and then answers
  500, because \<^verbatim>\<open>TicketOut\<close> inherits \<^verbatim>\<open>min_length=1\<close> from
  \<^verbatim>\<open>TicketBase\<close>; the same holds for the description. An empty status is stored and
  answered with 200.
\<close>

theorem update_empty_title_answers_500:
  "PUT_ticket 1 [''title'' \<mapsto> JStr '''']
     [\<lparr>ticket_id = 1, title = Some ''T'', description = Some ''D'', status = Some ''open''\<rparr>] =
     ([\<lparr>ticket_id = 1, title = Some '''', description = Some ''D'', status = Some ''open''\<rparr>],
      InternalServerError) \<and>
   PUT_ticket 1 [''description'' \<mapsto> JStr '''']
     [\<lparr>ticket_id = 1, title = Some ''T'', description = Some ''D'', status = Some ''open''\<rparr>] =
     ([\<lparr>ticket_id = 1, title = Some ''T'', description = Some '''', status = Some ''open''\<rparr>],
      InternalServerError) \<and>
   PUT_ticket 1 [''status'' \<mapsto> JStr '''']
     [\<lparr>ticket_id = 1, title = Some ''T'', description = Some ''D'', status = Some ''open''\<rparr>] =
     ([\<lparr>ticket_id = 1, title = Some ''T'', description = Some ''D'', status = Some ''''\<rparr>],
      JSONResponse 200
        (JObj [(''title'', JStr ''T''), (''description'', JStr ''D''),
               (''id'', JInt 1), (''status'', JStr '''')])) \<and>
   status_code InternalServerError = 500"
  by (simp add: schema_defs service_defs route_defs)

text \<open>
  An explicit null status is committed for any ticket of any table, while no update
  can put a null in the title or the description of a row.
\<close>

lemma put_null_status_any_ticket:
  assumes "get_ticket db tid = Inr (Some T)"
  shows "PUT_ticket tid [''status'' \<mapsto> JNull] db =
           (map (\<lambda>r. if ticket_id r = tid then T\<lparr>status := None\<rparr> else r) db,
            InternalServerError) \<and>
         get_ticket (fst (PUT_ticket tid [''status'' \<mapsto> JNull] db)) tid =
           Inr (Some (T\<lparr>status := None\<rparr>))"
proof -
  have found: "find (\<lambda>t. ticket_id t = tid) db = Some T"
    using assms by (simp add: get_ticket_Some_iff)
  have tid: "ticket_id T = tid"
    using found find_Some_holds[of "\<lambda>t. ticket_id t = tid" db T] by simp
  have p: "PUT_ticket tid [''status'' \<mapsto> JNull] db =
           (map (\<lambda>r. if ticket_id r = tid then T\<lparr>status := None\<rparr> else r) db,
            InternalServerError)"
    using assms
    by (simp add: schema_defs route_defs update_ticket_def not_null_ok_def nullable_def Let_def
        split: option.splits validated.splits)
  show ?thesis
    using p found tid find_map_replace[of tid db T "T\<lparr>status := None\<rparr>"]
    by (simp add: get_ticket_Some_iff)
qed

lemma fold_setattr_not_null:
  "not_null_ok items \<Longrightarrow> title t \<noteq> None \<and> description t \<noteq> None \<Longrightarrow>
   title (fold (\<lambda>(f, v) t. setattr t f v) items t) \<noteq> None \<and>
   description (fold (\<lambda>(f, v) t. setattr t f v) items t) \<noteq> None"
proof (induction items arbitrary: t)
  case Nil
  then show ?case by simp
next
  case (Cons a items)
  obtain f v where a: "a = (f, v)" by (cases a)
  have ok: "not_null_ok items" and here: "nullable f \<or> v \<noteq> None"
    using Cons.prems(1) a by (simp_all add: not_null_ok_def)
  have "title (setattr t f v) \<noteq> None \<and> description (setattr t f v) \<noteq> None"
    using here Cons.prems(2) by (cases f) (auto simp: nullable_def)
  then show ?case using Cons.IH[OF ok] a by simp
qed

lemma update_ticket_keeps_not_null:
  assumes "\<forall>t \<in> set db. title t \<noteq> None \<and> description t \<noteq> None"
    and "update_ticket db tid U = Inr (db', r)"
  shows "\<forall>t \<in> set db'. title t \<noteq> None \<and> description t \<noteq> None"
proof (cases "find (\<lambda>t. ticket_id t = tid) db")
  case None
  then show ?thesis
    using assms by (auto simp: update_ticket_def get_ticket_def split: if_splits)
next
  case (Some T)
  then have "T \<in> set db"
    by (auto simp: find_Some_iff)
  then have T: "title T \<noteq> None \<and> description T \<noteq> None" using assms(1) by blast
  have "get_ticket db tid = Inr (Some T)"
    using Some by (simp add: get_ticket_Some_iff)
  then show ?thesis
    using assms fold_setattr_not_null[OF _ T, of "model_dump_exclude_unset U"]
    by (auto simp: update_ticket_def Let_def split: if_splits)
qed

text \<open>
  Claim C8 says no stored ticket ever has a null field. After
  \<^verbatim>\<open>POST /tickets/ {"title": "T", "description": "D"}\<close> on an empty table,
  \<^verbatim>\<open>PUT /tickets/1 {"status": null}\<close> commits a NULL status, since the status column
  is not declared \<^verbatim>\<open>nullable=False\<close>, and answers 500. The same request with a null
  title is refused by the column constraint and leaves the table as it was.
\<close>

theorem update_null_status_is_stored:
  "POST_tickets [''title'' \<mapsto> JStr ''T'', ''description'' \<mapsto> JStr ''D''] [] =
     ([\<lparr>ticket_id = 1, title = Some ''T'', description = Some ''D'', status = Some ''open''\<rparr>],
      JSONResponse 201
        (JObj [(''title'', JStr ''T''), (''description'', JStr ''D''),
               (''id'', JInt 1), (''status'', JStr ''open'')])) \<and>
   PUT_ticket 1 [''status'' \<mapsto> JNull]
     [\<lparr>ticket_id = 1, title = Some ''T'', description = Some ''D'', status = Some ''open''\<rparr>] =
     ([\<lparr>ticket_id = 1, title = Some ''T'', description = Some ''D'', status = None\<rparr>],
      InternalServerError) \<and>
   PUT_ticket 1 [''title'' \<mapsto> JNull]
     [\<lparr>ticket_id = 1, title = Some ''T'', description = Some ''D'', status = Some ''open''\<rparr>] =
     ([\<lparr>ticket_id = 1, title = Some ''T'', description = Some ''D'', status = Some ''open''\<rparr>],
      InternalServerError)"
  by (simp add: schema_defs service_defs route_defs)

section \<open>Delete\<close>

lemma delete_returns_snapshot:
  assumes "get_ticket db tid = Inr (Some T)" and "sqlite_integer tid"
  shows "delete_ticket db tid = Inr (filter (\<lambda>r. ticket_id r \<noteq> tid) db, Some T) \<and>
         get_ticket (filter (\<lambda>r. ticket_id r \<noteq> tid) db) tid = Inr None"
  using assms by (simp add: delete_ticket_def get_ticket_def find_filter_removed)

lemma delete_then_get_valid_ticket:
  assumes "get_ticket db tid = Inr (Some T)" and "sqlite_integer tid"
    and "TicketOut_from_attributes T = Valid out"
  shows "\<exists>db'. DELETE_ticket tid db = (db', JSONResponse 200 (TicketOut_json out)) \<and>
           get_ticket db' tid = Inr None \<and>
           GET_ticket tid db' =
             (db', JSONResponse 404 (JObj [(''detail'', JStr ''Ticket not found'')]))"
  using assms delete_returns_snapshot[OF assms(1,2)]
  by (simp add: DELETE_ticket_def delete_def finish_def serialize_response_def GET_ticket_def get_def)

text \<open>
  Claim C9 says delete answers 200 with the deleted ticket for every id in the store.
  A ticket whose title an update has emptied is removed by
  \<^verbatim>\<open>DELETE /tickets/1\<close>, but the answer is 500: the returned ticket does not fit
  \<^verbatim>\<open>TicketOut\<close>. A get of the id afterwards answers 404.
\<close>

theorem delete_empty_title_answers_500:
  "PUT_ticket 1 [''title'' \<mapsto> JStr '''']
     [\<lparr>ticket_id = 1, title = Some ''T'', description = Some ''D'', status = Some ''open''\<rparr>] =
     ([\<lparr>ticket_id = 1, title = Some '''', description = Some ''D'', status = Some ''open''\<rparr>],
      InternalServerError) \<and>
   DELETE_ticket 1
     [\<lparr>ticket_id = 1, title = Some '''', description = Some ''D'', status = Some ''open''\<rparr>] =
     ([], InternalServerError) \<and>
   GET_ticket 1 [] = ([], JSONResponse 404 (JObj [(''detail'', JStr ''Ticket not found'')]))"
  by (simp add: schema_defs service_defs route_defs)

section \<open>The diagnostic route\<close>

text \<open>
  Claim C10. \<^verbatim>\<open>GET /tickets/papo\<close> resolves to the handler \<^verbatim>\<open>papo\<close>, registered
  ahead of \<^verbatim>\<open>/{ticket_id}\<close>; for every settings object it answers 200 with a JSON
  object holding the fixed message and, under \<^verbatim>\<open>secret_key\<close>, the value of the
  setting \<^verbatim>\<open>ENV_\<close> as it is.
\<close>

theorem papo_discloses_env:
  "resolve GET ''/papo'' = Some H_papo \<and>
   GET_papo settings =
     JSONResponse 200
       (JObj [(''message'', JStr ''Hello from /test route!''),
              (''secret_key'', (case ENV_setting settings of None \<Rightarrow> JNull | Some s \<Rightarrow> JStr s))]) \<and>
   map_of (papo (settings\<lparr>ENV_setting := Some secret\<rparr>)) ''secret_key'' = Some (JStr secret)"
  by (simp add: resolve_def router_def GET_papo_def papo_def)

end
